theory Spec2Isabelle
  imports Main "HOL-Library.Sublist" "HOL-Library.AList"
begin

section \<open>Values, errors and promises\<close>

text \<open>
  JavaScript values that cross the RPC channel. \<open>JUndefined\<close> is the value of a variable
  that was never assigned (\<^verbatim>\<open>let result: TData | undefined\<close>).
\<close>

datatype jsval =
    JUndefined
  | JNull
  | JBool bool
  | JNum int
  | JStr string
  | JArr "jsval list"
  | JObj "(string \<times> jsval) list"

text \<open>An \<^verbatim>\<open>Error\<close> object: its optional \<^verbatim>\<open>code\<close> and its \<^verbatim>\<open>message\<close>.\<close>

record js_error =
  code :: "string option"
  message :: string

definition Error :: "string \<Rightarrow> js_error" where
  "Error msg = \<lparr>code = None, message = msg\<rparr>"

text \<open>
  What a promise is rejected with: \<^verbatim>\<open>reject(`...`)\<close> passes a string,
  \<^verbatim>\<open>reject(error)\<close> and a \<^verbatim>\<open>throw\<close> inside the executor pass the error object.
\<close>

datatype rejection = Reason string | ErrorObject js_error

datatype settlement = Resolved jsval | Rejected rejection

text \<open>A promise settles once: \<^verbatim>\<open>resolve\<close> and \<^verbatim>\<open>reject\<close> after that have no effect.\<close>

definition settle :: "settlement \<Rightarrow> settlement option \<Rightarrow> settlement option" where
  "settle outcome p = (case p of None \<Rightarrow> Some outcome | Some first \<Rightarrow> Some first)"

subsection \<open>Numbers in template literals\<close>

text \<open>The decimal digit for \<open>d < 10\<close>.\<close>

definition digit_char :: "nat \<Rightarrow> char" where
  "digit_char d = ''0123456789'' ! d"

function string_of_nat :: "nat \<Rightarrow> string" where
  "string_of_nat n =
     (if n < 10 then [digit_char n] else string_of_nat (n div 10) @ [digit_char (n mod 10)])"
  by pat_completeness auto
termination
  by (relation "measure id") auto

declare string_of_nat.simps [simp del]

text \<open>\<^verbatim>\<open>`${code}`\<close> for an integer \<^verbatim>\<open>code\<close>: its decimal digits, with a sign when negative.\<close>

definition string_of_int :: "int \<Rightarrow> string" where
  "string_of_int i = (if i < 0 then CHR ''-'' # string_of_nat (nat (- i)) else string_of_nat (nat i))"

text \<open>The exit code of a process is a number, or \<^verbatim>\<open>null\<close> when a signal ended it.\<close>

definition string_of_code :: "int option \<Rightarrow> string" where
  "string_of_code c = (case c of None \<Rightarrow> ''null'' | Some n \<Rightarrow> string_of_int n)"

section \<open>Steps\<close>

text \<open>
  Modelled from the spec: the \<^verbatim>\<open>Step\<close> type (\<^verbatim>\<open>./types\<close> is not among the sources).
  A step is \<^verbatim>\<open>{filePath, version, config}\<close>; \<^verbatim>\<open>config\<close> is a tagged variant; an
  \<^verbatim>\<open>emits\<close> entry is either a bare topic or \<^verbatim>\<open>{topic, label?, conditional?}\<close>.
\<close>

datatype emit_decl =
    Topic string
  | TopicObject string "string option" "bool option"

datatype step_config =
    ApiConfig string string string "emit_decl list" "string list"
  | EventConfig string "string list" "emit_decl list" "string list"
  | CronConfig string string "emit_decl list" "string list"
  | NoopConfig string "string list" "string list" "string list"

fun config_name :: "step_config \<Rightarrow> string" where
  "config_name (ApiConfig n _ _ _ _) = n"
| "config_name (EventConfig n _ _ _) = n"
| "config_name (CronConfig n _ _ _) = n"
| "config_name (NoopConfig n _ _ _) = n"

fun config_type :: "step_config \<Rightarrow> string" where
  "config_type (ApiConfig _ _ _ _ _) = ''api''"
| "config_type (EventConfig _ _ _ _) = ''event''"
| "config_type (CronConfig _ _ _ _) = ''cron''"
| "config_type (NoopConfig _ _ _ _) = ''noop''"

fun config_flows :: "step_config \<Rightarrow> string list" where
  "config_flows (ApiConfig _ _ _ _ fl) = fl"
| "config_flows (EventConfig _ _ _ fl) = fl"
| "config_flows (CronConfig _ _ _ fl) = fl"
| "config_flows (NoopConfig _ _ _ fl) = fl"

text \<open>A noop step has \<^verbatim>\<open>virtualEmits\<close> only: it declares no \<^verbatim>\<open>emits\<close>.\<close>

fun config_emits :: "step_config \<Rightarrow> emit_decl list" where
  "config_emits (ApiConfig _ _ _ em _) = em"
| "config_emits (EventConfig _ _ em _) = em"
| "config_emits (CronConfig _ _ em _) = em"
| "config_emits (NoopConfig _ _ _ _) = []"

record Step =
  filePath :: string
  version :: string
  config :: step_config

fun emit_topic :: "emit_decl \<Rightarrow> string" where
  "emit_topic (Topic t) = t"
| "emit_topic (TopicObject t _ _) = t"

text \<open>
  Modelled from the spec: \<^verbatim>\<open>isAllowedToEmit\<close> (\<^verbatim>\<open>./utils\<close> is not among the sources).
  The spec's words: the emitted topic must be in \<^verbatim>\<open>step.config.emits\<close>, "tagged by topic
  string, matching the form in declarations".
\<close>

definition isAllowedToEmit :: "Step \<Rightarrow> string \<Rightarrow> bool" where
  "isAllowedToEmit step emitted = (emitted \<in> set (map emit_topic (config_emits (config step))))"

section \<open>Selecting the runner\<close>

record runner_spec =
  command :: string
  runner :: string
  args :: "string list"

text \<open>
  \<^verbatim>\<open>path.join\<close> on segments that need no normalisation: the segments separated by \<^verbatim>\<open>/\<close>.
\<close>

fun path_join :: "string list \<Rightarrow> string" where
  "path_join [] = ''.''"
| "path_join [s] = s"
| "path_join (s # rest) = s @ ''/'' @ path_join rest"

text \<open>
  \<^verbatim>\<open>getLanguageBasedRunner\<close>. \<open>dirname\<close> is \<^verbatim>\<open>__dirname\<close>, \<open>test_mode\<close> is
  \<^verbatim>\<open>process.env._MOTIA_TEST_MODE === 'true'\<close>; the parameter defaults to the empty string.
  The \<^verbatim>\<open>throw\<close> is the \<open>Inl\<close> result.
\<close>

definition getLanguageBasedRunner :: "string \<Rightarrow> bool \<Rightarrow> string option \<Rightarrow> js_error + runner_spec" where
  "getLanguageBasedRunner dirname test_mode arg =
     (let stepFilePath = (case arg of None \<Rightarrow> '''' | Some p \<Rightarrow> p);
          isPython = suffix ''.py'' stepFilePath;
          isRuby = suffix ''.rb'' stepFilePath;
          isNode = (suffix ''.js'' stepFilePath \<or> suffix ''.ts'' stepFilePath)
      in if isPython then
           Inr \<lparr>command = ''python'',
                runner = path_join [dirname, ''python'', ''python-runner.py''], args = []\<rparr>
         else if isRuby then
           Inr \<lparr>command = ''ruby'',
                runner = path_join [dirname, ''ruby'', ''ruby-runner.rb''], args = []\<rparr>
         else if isNode then
           (if test_mode then
              Inr \<lparr>command = ''node'',
                   runner = path_join [dirname, ''node'', ''node-runner.ts''],
                   args = [''-r'', ''ts-node/register'']\<rparr>
            else
              Inr \<lparr>command = ''node'',
                   runner = path_join [dirname, ''node'', ''node-runner.js''], args = []\<rparr>)
         else Inl (Error (''Unsupported file extension '' @ stepFilePath)))"

section \<open>Collaborators of the executor\<close>

text \<open>
  Modelled from the spec: the state manager (\<^verbatim>\<open>InternalStateManager\<close> is declared in
  \<^verbatim>\<open>./types\<close>, which is not among the sources). FlowState is \<^verbatim>\<open>(traceId, key) \<rightarrow> JSON\<close>;
  \<^verbatim>\<open>get\<close> returns \<^verbatim>\<open>null\<close> for absent keys, \<^verbatim>\<open>set\<close> is last-write-wins, \<^verbatim>\<open>delete\<close> is
  idempotent, \<^verbatim>\<open>clear(traceId)\<close> removes all keys under that trace. Of \<^verbatim>\<open>getGroup\<close> the spec
  gives the signature only; it is taken to list the values stored under the scope
  \<^verbatim>\<open>groupId\<close>.
\<close>

type_synonym state_store = "((string \<times> string) \<times> jsval) list"

definition state_get :: "state_store \<Rightarrow> string \<Rightarrow> string \<Rightarrow> jsval" where
  "state_get st t k = (case map_of st (t, k) of None \<Rightarrow> JNull | Some v \<Rightarrow> v)"

definition state_set :: "state_store \<Rightarrow> string \<Rightarrow> string \<Rightarrow> jsval \<Rightarrow> state_store" where
  "state_set st t k v = AList.update (t, k) v st"

definition state_delete :: "state_store \<Rightarrow> string \<Rightarrow> string \<Rightarrow> state_store" where
  "state_delete st t k = AList.delete (t, k) st"

definition state_clear :: "state_store \<Rightarrow> string \<Rightarrow> state_store" where
  "state_clear st t = filter (\<lambda>(tk, v). fst tk \<noteq> t) st"

definition state_getGroup :: "state_store \<Rightarrow> string \<Rightarrow> jsval list" where
  "state_getGroup st g = map snd (filter (\<lambda>(tk, v). fst tk = g) st)"

text \<open>
  Modelled from the spec: the stream objects returned by the factories of
  \<^verbatim>\<open>lockedData.getStreams()\<close> (\<^verbatim>\<open>./locked-data\<close> is not among the sources). StreamItem is
  \<^verbatim>\<open>(streamName, groupId, id) \<rightarrow> JSON\<close>; \<^verbatim>\<open>get\<close> returns the item or \<^verbatim>\<open>null\<close>, \<^verbatim>\<open>set\<close>
  returns the stored value, \<^verbatim>\<open>getGroup\<close> the items of the group.
\<close>

type_synonym stream_store = "((string \<times> string \<times> string) \<times> jsval) list"

definition stream_get :: "stream_store \<Rightarrow> string \<Rightarrow> string \<Rightarrow> string \<Rightarrow> jsval" where
  "stream_get ss n g i = (case map_of ss (n, g, i) of None \<Rightarrow> JNull | Some v \<Rightarrow> v)"

definition stream_set :: "stream_store \<Rightarrow> string \<Rightarrow> string \<Rightarrow> string \<Rightarrow> jsval \<Rightarrow> stream_store" where
  "stream_set ss n g i v = AList.update (n, g, i) v ss"

definition stream_delete :: "stream_store \<Rightarrow> string \<Rightarrow> string \<Rightarrow> string \<Rightarrow> stream_store" where
  "stream_delete ss n g i = AList.delete (n, g, i) ss"

definition stream_getGroup :: "stream_store \<Rightarrow> string \<Rightarrow> string \<Rightarrow> jsval list" where
  "stream_getGroup ss n g = map snd (filter (\<lambda>(ngi, v). fst ngi = n \<and> fst (snd ngi) = g) ss)"

text \<open>The child logger \<^verbatim>\<open>options.logger.child({ step: step.config.name })\<close>.\<close>

datatype Logger = ChildLogger string

text \<open>
  Modelled from the spec: the \<^verbatim>\<open>Event\<close> type (\<^verbatim>\<open>./types\<close> is not among the sources),
  \<^verbatim>\<open>{topic, data, traceId, flows, logger}\<close>. \<open>Event\<close> is the object handed to
  \<^verbatim>\<open>eventManager.emit\<close>; \<open>EmitInput\<close> is the \<^verbatim>\<open>emit\<close> input as the worker sent it, in
  which the worker may or may not have put a \<^verbatim>\<open>traceId\<close> and \<^verbatim>\<open>flows\<close>.
\<close>

record Event =
  ev_topic :: string
  ev_data :: jsval
  ev_traceId :: string
  ev_flows :: "string list"
  ev_logger :: Logger

record EmitInput =
  in_topic :: string
  in_data :: jsval
  in_traceId :: "string option"
  in_flows :: "string list option"

section \<open>The step executor\<close>

record CallStepFileOptions =
  step :: Step
  traceId :: string
  data :: jsval
  contextInFirstArg :: bool
  lockedData :: "string list"

text \<open>
  \<open>lockedData\<close> holds \<^verbatim>\<open>Object.keys(lockedData.getStreams())\<close>, the declared stream names.
  The envelope is the object given to \<^verbatim>\<open>JSON.stringify\<close>.
\<close>

record Envelope =
  env_data :: jsval
  env_flows :: "string list"
  env_traceId :: string
  env_contextInFirstArg :: bool
  env_streams :: "string list"

text \<open>
  The configuration of the process manager: the command and its arguments
  \<^verbatim>\<open>[...args, runner, step.filePath, jsonData]\<close>, of which the last one, the serialised
  envelope, is kept apart as the envelope it serialises.
\<close>

record ProcessConfig =
  pm_command :: string
  pm_args :: "string list"
  pm_envelope :: Envelope

text \<open>The typed inputs of the RPC methods for which the executor registers a handler.\<close>

datatype rpc =
    Close
  | Log jsval
  | StateGet string string
  | StateSet string string jsval
  | StateDelete string string
  | StateClear string
  | StateGetGroup string
  | Result jsval
  | Emit EmitInput
  | StreamGet string string string
  | StreamSet string string string jsval
  | StreamDelete string string string
  | StreamGetGroup string string

text \<open>The method name a frame carries; for a stream frame the first argument is the stream.\<close>

fun method_name :: "rpc \<Rightarrow> string" where
  "method_name Close = ''close''"
| "method_name (Log _) = ''log''"
| "method_name (StateGet _ _) = ''state.get''"
| "method_name (StateSet _ _ _) = ''state.set''"
| "method_name (StateDelete _ _) = ''state.delete''"
| "method_name (StateClear _) = ''state.clear''"
| "method_name (StateGetGroup _) = ''state.getGroup''"
| "method_name (Result _) = ''result''"
| "method_name (Emit _) = ''emit''"
| "method_name (StreamGet n _ _) = ''streams.'' @ n @ ''.get''"
| "method_name (StreamSet n _ _ _) = ''streams.'' @ n @ ''.set''"
| "method_name (StreamDelete n _ _) = ''streams.'' @ n @ ''.delete''"
| "method_name (StreamGetGroup n _) = ''streams.'' @ n @ ''.getGroup''"

text \<open>What the worker process produces while it runs, and how it ends.\<close>

datatype worker_output =
    Rpc rpc
  | StdoutJson jsval
  | StdoutText string
  | Stderr string

datatype spawn_result = Spawned | SpawnRejected js_error

datatype exit_event = ProcessClose "int option" | ProcessError js_error

text \<open>
  The executor's variables and the calls it has made on its collaborators, in order:
  \<open>emitted\<close> are the calls of \<^verbatim>\<open>eventManager.emit\<close>, \<open>invalidEmits\<close> those of
  \<^verbatim>\<open>printer.printInvalidEmit\<close>, \<open>logged\<close> those of the child logger, \<open>tracked\<close> those of
  \<^verbatim>\<open>trackEvent\<close>, \<open>responses\<close> what the handlers returned to the worker.
\<close>

record parent_state =
  result :: jsval
  promise :: "settlement option"
  state :: state_store
  streams :: stream_store
  emitted :: "(Event \<times> string) list"
  invalidEmits :: "(Step \<times> string) list"
  logged :: "(string \<times> jsval) list"
  tracked :: "string list"
  responses :: "(string \<times> jsval) list"
  handlers :: "string list"
  spawned :: "ProcessConfig option"
  killed :: bool
  closed :: bool

definition initial_state :: "state_store \<Rightarrow> stream_store \<Rightarrow> parent_state" where
  "initial_state st ss =
     \<lparr>result = JUndefined, promise = None, state = st, streams = ss, emitted = [],
      invalidEmits = [], logged = [], tracked = [], responses = [], handlers = [],
      spawned = None, killed = False, closed = False\<rparr>"

text \<open>
  Modelled from the spec: \<^verbatim>\<open>ProcessManager.kill\<close> and \<^verbatim>\<open>ProcessManager.close\<close>
  (\<^verbatim>\<open>./process-communication/process-manager\<close> is not among the sources): they "terminate
  the process and tear down handler registrations".
\<close>

definition processManager_kill :: "parent_state \<Rightarrow> parent_state" where
  "processManager_kill s = s\<lparr>killed := True, handlers := []\<rparr>"

definition processManager_close :: "parent_state \<Rightarrow> parent_state" where
  "processManager_close s = s\<lparr>closed := True, handlers := []\<rparr>"

text \<open>The method names passed to \<^verbatim>\<open>processManager.handler\<close>, in the order of the calls.\<close>

definition stream_handlers :: "string \<Rightarrow> string list" where
  "stream_handlers n =
     [''streams.'' @ n @ ''.get'', ''streams.'' @ n @ ''.set'',
      ''streams.'' @ n @ ''.delete'', ''streams.'' @ n @ ''.getGroup'']"

definition registered_handlers :: "string list \<Rightarrow> string list" where
  "registered_handlers names =
     [''close'', ''log'', ''state.get'', ''state.set'', ''state.delete'', ''state.clear'',
      ''state.getGroup'', ''result'', ''emit'']
     @ concat (map stream_handlers names)"

definition respond :: "rpc \<Rightarrow> jsval \<Rightarrow> parent_state \<Rightarrow> parent_state" where
  "respond r v s = s\<lparr>responses := responses s @ [(method_name r, v)]\<rparr>"

text \<open>The body of the \<^verbatim>\<open>emit\<close> handler.\<close>

definition emit_handler :: "CallStepFileOptions \<Rightarrow> EmitInput \<Rightarrow> parent_state \<Rightarrow> parent_state" where
  "emit_handler opts input s =
     (if \<not> isAllowedToEmit (step opts) (in_topic input) then
        s\<lparr>invalidEmits := invalidEmits s @ [(step opts, in_topic input)]\<rparr>
      else
        s\<lparr>emitted := emitted s @
             [(\<lparr>ev_topic = in_topic input, ev_data = in_data input, ev_traceId = traceId opts,
                ev_flows = config_flows (config (step opts)),
                ev_logger = ChildLogger (config_name (config (step opts)))\<rparr>,
               filePath (step opts))]\<rparr>)"

text \<open>The registered handlers, by the frame they receive.\<close>

fun run_handler :: "CallStepFileOptions \<Rightarrow> rpc \<Rightarrow> parent_state \<Rightarrow> parent_state" where
  "run_handler opts Close s = respond Close JUndefined (processManager_kill s)"
| "run_handler opts (Log input) s =
     respond (Log input) JUndefined (s\<lparr>logged := logged s @ [(''log'', input)]\<rparr>)"
| "run_handler opts (StateGet t k) s = respond (StateGet t k) (state_get (state s) t k) s"
| "run_handler opts (StateSet t k v) s =
     respond (StateSet t k v) JUndefined (s\<lparr>state := state_set (state s) t k v\<rparr>)"
| "run_handler opts (StateDelete t k) s =
     respond (StateDelete t k) JUndefined (s\<lparr>state := state_delete (state s) t k\<rparr>)"
| "run_handler opts (StateClear t) s =
     respond (StateClear t) JUndefined (s\<lparr>state := state_clear (state s) t\<rparr>)"
| "run_handler opts (StateGetGroup g) s =
     respond (StateGetGroup g) (JArr (state_getGroup (state s) g)) s"
| "run_handler opts (Result input) s = respond (Result input) JUndefined (s\<lparr>result := input\<rparr>)"
| "run_handler opts (Emit input) s = respond (Emit input) JUndefined (emit_handler opts input s)"
| "run_handler opts (StreamGet n g i) s =
     respond (StreamGet n g i) (stream_get (streams s) n g i) s"
| "run_handler opts (StreamSet n g i d) s =
     respond (StreamSet n g i d) d (s\<lparr>streams := stream_set (streams s) n g i d\<rparr>)"
| "run_handler opts (StreamDelete n g i) s =
     respond (StreamDelete n g i) JUndefined (s\<lparr>streams := stream_delete (streams s) n g i\<rparr>)"
| "run_handler opts (StreamGetGroup n g) s =
     respond (StreamGetGroup n g) (JArr (stream_getGroup (streams s) n g)) s"

text \<open>
  A frame reaches a handler only when its method has one registered; what the process
  manager does with any other frame is outside the executor.
\<close>

definition onMessage :: "CallStepFileOptions \<Rightarrow> worker_output \<Rightarrow> parent_state \<Rightarrow> parent_state" where
  "onMessage opts w s =
     (case w of
        Rpc r \<Rightarrow> if method_name r \<in> set (handlers s) then run_handler opts r s else s
      | StdoutJson m \<Rightarrow> s\<lparr>logged := logged s @ [(''log'', m)]\<rparr>
      | StdoutText t \<Rightarrow> s\<lparr>logged := logged s @ [(''info'', JStr t)]\<rparr>
      | Stderr t \<Rightarrow> s\<lparr>logged := logged s @ [(''error'', JStr t)]\<rparr>)"

definition runMessages :: "CallStepFileOptions \<Rightarrow> worker_output list \<Rightarrow> parent_state \<Rightarrow> parent_state" where
  "runMessages opts ws s = foldl (\<lambda>acc w. onMessage opts w acc) s ws"

definition onProcessClose :: "CallStepFileOptions \<Rightarrow> int option \<Rightarrow> parent_state \<Rightarrow> parent_state" where
  "onProcessClose opts exit_code s0 =
     (let s = processManager_close s0
      in if exit_code \<noteq> Some 0 \<and> exit_code \<noteq> None then
           s\<lparr>tracked := tracked s @ [''step_execution_error''],
             promise := settle (Rejected (Reason (''Process exited with code ''
                          @ string_of_code exit_code))) (promise s)\<rparr>
         else s\<lparr>promise := settle (Resolved (result s)) (promise s)\<rparr>)"

definition onProcessError :: "CallStepFileOptions \<Rightarrow> string \<Rightarrow> js_error \<Rightarrow> parent_state \<Rightarrow> parent_state" where
  "onProcessError opts cmd err s0 =
     (let s = processManager_close s0
      in if code err = Some ''ENOENT'' then
           s\<lparr>tracked := tracked s @ [''step_execution_error''],
             promise := settle (Rejected (Reason (''Executable '' @ cmd @ '' not found''))) (promise s)\<rparr>
         else s\<lparr>promise := settle (Rejected (ErrorObject err)) (promise s)\<rparr>)"

text \<open>\<^verbatim>\<open>`${error}`\<close> for an \<^verbatim>\<open>Error\<close> object whose name is \<^verbatim>\<open>Error\<close>.\<close>

definition error_to_string :: "js_error \<Rightarrow> string" where
  "error_to_string e = (if message e = [] then ''Error'' else ''Error: '' @ message e)"

text \<open>
  \<^verbatim>\<open>callStepFile\<close>, for one invocation: whether \<^verbatim>\<open>spawn()\<close> resolved, what the worker
  produced while it ran, and the lifecycle callback that ended it. A \<^verbatim>\<open>throw\<close> of
  \<^verbatim>\<open>getLanguageBasedRunner\<close> inside the promise executor rejects the promise with the thrown
  error, and nothing after it runs.
\<close>

definition callStepFile ::
  "string \<Rightarrow> bool \<Rightarrow> CallStepFileOptions \<Rightarrow> state_store \<Rightarrow> stream_store \<Rightarrow>
   spawn_result \<Rightarrow> worker_output list \<Rightarrow> exit_event \<Rightarrow> parent_state" where
  "callStepFile dirname test_mode opts st ss spawn ws ending =
     (let s0 = initial_state st ss;
          jsonData = \<lparr>env_data = data opts, env_flows = config_flows (config (step opts)),
                      env_traceId = traceId opts,
                      env_contextInFirstArg = contextInFirstArg opts,
                      env_streams = lockedData opts\<rparr>
      in case getLanguageBasedRunner dirname test_mode (Some (filePath (step opts))) of
           Inl thrown \<Rightarrow> s0\<lparr>promise := settle (Rejected (ErrorObject thrown)) (promise s0)\<rparr>
         | Inr r \<Rightarrow>
            (let s1 = s0\<lparr>spawned := Some \<lparr>pm_command = command r,
                            pm_args = args r @ [runner r, filePath (step opts)],
                            pm_envelope = jsonData\<rparr>,
                          tracked := tracked s0 @ [''step_execution_started'']\<rparr>
             in case spawn of
                  SpawnRejected err \<Rightarrow>
                    s1\<lparr>tracked := tracked s1 @ [''step_execution_error''],
                       promise := settle (Rejected (Reason (''Failed to spawn process: ''
                                    @ error_to_string err))) (promise s1)\<rparr>
                | Spawned \<Rightarrow>
                    (let s2 = runMessages opts ws
                                (s1\<lparr>handlers := registered_handlers (lockedData opts)\<rparr>)
                     in case ending of
                          ProcessClose exit_code \<Rightarrow> onProcessClose opts exit_code s2
                        | ProcessError err \<Rightarrow> onProcessError opts (command r) err s2)))"

text \<open>
  The values of the \<^verbatim>\<open>result\<close> frames the executor received, in order: those that arrived
  before the worker asked to be closed, since the \<^verbatim>\<open>close\<close> handler kills the process
  manager.
\<close>

definition received_results :: "worker_output list \<Rightarrow> jsval list" where
  "received_results ws = [v. Rpc (Result v) \<leftarrow> takeWhile (\<lambda>w. w \<noteq> Rpc Close) ws]"

text \<open>The frames of the state interface.\<close>

fun is_state_rpc :: "rpc \<Rightarrow> bool" where
  "is_state_rpc (StateGet _ _) = True"
| "is_state_rpc (StateSet _ _ _) = True"
| "is_state_rpc (StateDelete _ _) = True"
| "is_state_rpc (StateClear _) = True"
| "is_state_rpc (StateGetGroup _) = True"
| "is_state_rpc _ = False"

section \<open>The Node runner\<close>

text \<open>What the runner process does, in order.\<close>

datatype runner_action =
    SenderInit
  | Send string jsval
  | SenderClose
  | CallHandler
  | ConsoleError string js_error
  | Exit int

record RunnerEvent =
  re_data :: jsval
  re_traceId :: string
  re_flows :: "string list"
  re_contextInFirstArg :: bool
  re_streams :: "string list option"

text \<open>
  The \<^verbatim>\<open>streams\<close> object of the context: for each stream, the methods the handler can
  call and the RPC method each of them sends.
\<close>

definition stream_operations :: "string \<Rightarrow> (string \<times> string) list" where
  "stream_operations n =
     [(''get'', ''streams.'' @ n @ ''.get''),
      (''update'', ''streams.'' @ n @ ''.update''),
      (''delete'', ''streams.'' @ n @ ''.delete''),
      (''create'', ''streams.'' @ n @ ''.create'')]"

definition streams_context :: "string list option \<Rightarrow> (string \<times> (string \<times> string) list) list" where
  "streams_context streamsConfig =
     foldl (\<lambda>acc n. AList.update n (stream_operations n) acc) []
       (case streamsConfig of None \<Rightarrow> [] | Some c \<Rightarrow> c)"

record Context =
  ctx_traceId :: string
  ctx_flows :: "string list"
  ctx_streams :: "(string \<times> (string \<times> string) list) list"

text \<open>
  A run of user code: the RPC calls it makes through the context, and whether it returns
  a value or throws. The handler receives the data (absent when the context comes first)
  and the context; a middleware receives the data, the context and the rest of the chain.
\<close>

record handler_run =
  actions :: "runner_action list"
  returned :: "js_error + jsval"

type_synonym handler_fn = "jsval option \<Rightarrow> Context \<Rightarrow> handler_run"

type_synonym middleware = "jsval \<Rightarrow> Context \<Rightarrow> handler_run \<Rightarrow> handler_run"

datatype module_export = NotExported | Value jsval | Function handler_fn

record ModuleConfig =
  middleware :: "middleware list option"

record Module =
  handler :: module_export
  module_config :: "ModuleConfig option"

text \<open>
  Modelled from the spec: \<^verbatim>\<open>composeMiddleware\<close> (\<^verbatim>\<open>./middleware-compose\<close> is not among the
  sources): "a fold over the list with a terminal \<^verbatim>\<open>next\<close> invoking the handler".
\<close>

definition composeMiddleware :: "middleware list \<Rightarrow> jsval \<Rightarrow> Context \<Rightarrow> handler_run \<Rightarrow> handler_run" where
  "composeMiddleware ms d ctx handlerFn = foldr (\<lambda>m next. m d ctx next) ms handlerFn"

text \<open>
  \<^verbatim>\<open>runTypescriptModule\<close>. \<open>required\<close> is what \<^verbatim>\<open>require(path.resolve(filePath))\<close> gave:
  the module, or the error it threw. Every \<^verbatim>\<open>throw\<close> inside the \<^verbatim>\<open>try\<close> ends in the
  \<^verbatim>\<open>catch\<close>: the error is printed with \<^verbatim>\<open>console.error\<close> and the process exits with 1.
\<close>

definition runTypescriptModule :: "string \<Rightarrow> RunnerEvent \<Rightarrow> js_error + Module \<Rightarrow> runner_action list" where
  "runTypescriptModule path event required =
     (let catch = (\<lambda>error. [ConsoleError ''Error running TypeScript module:'' error, Exit 1])
      in case required of
           Inl thrown \<Rightarrow> catch thrown
         | Inr module \<Rightarrow>
            (case handler module of
               Function h \<Rightarrow>
                 (let context = \<lparr>ctx_traceId = re_traceId event, ctx_flows = re_flows event,
                                 ctx_streams = streams_context (re_streams event)\<rparr>
                  in SenderInit #
                     (case module_config module of
                        None \<Rightarrow>
                          catch (Error ''Cannot read properties of undefined (reading 'middleware')'')
                      | Some cfg \<Rightarrow>
                         (let middlewares = (case middleware cfg of Some ms \<Rightarrow> ms | None \<Rightarrow> []);
                              called = (if re_contextInFirstArg event then h None context
                                        else h (Some (re_data event)) context);
                              handlerFn = \<lparr>actions = CallHandler # actions called,
                                           returned = returned called\<rparr>;
                              run = composeMiddleware middlewares (re_data event) context handlerFn
                          in actions run @
                             (case returned run of
                                Inl thrown \<Rightarrow> catch thrown
                              | Inr res \<Rightarrow> [Send ''result'' res, SenderClose, Exit 0]))))
             | _ \<Rightarrow> catch (Error (''Function handler not found in module '' @ path))))"

section \<open>A sample invocation\<close>

text \<open>
  The step of the spec's scenarios: an event step \<^verbatim>\<open>S\<close> that subscribes \<^verbatim>\<open>a\<close> and emits
  \<^verbatim>\<open>b\<close>, invoked under trace \<^verbatim>\<open>T1\<close> with no streams declared; the runner selected for its
  TypeScript file; and the executor's variables just after the handlers were registered.
\<close>

abbreviation options_for :: "string \<Rightarrow> CallStepFileOptions" where
  "options_for path \<equiv>
     \<lparr>step = \<lparr>filePath = path, version = ''1'',
              config = EventConfig ''S'' [''a''] [Topic ''b''] [''flow'']\<rparr>,
      traceId = ''T1'', data = JNull, contextInFirstArg = False, lockedData = []\<rparr>"

abbreviation sample_options :: CallStepFileOptions where
  "sample_options \<equiv> options_for ''steps/s.step.ts''"

abbreviation sample_runner :: runner_spec where
  "sample_runner \<equiv> \<lparr>command = ''node'', runner = ''/core/node/node-runner.js'', args = []\<rparr>"

abbreviation running_with :: "state_store \<Rightarrow> parent_state" where
  "running_with st \<equiv> (initial_state st [])\<lparr>handlers := registered_handlers []\<rparr>"

abbreviation sample_running :: parent_state where
  "sample_running \<equiv> running_with []"

text \<open>An \<^verbatim>\<open>emit\<close> input on a topic, and the event the sample step's emit on \<^verbatim>\<open>b\<close> becomes.\<close>

abbreviation emit_on :: "string \<Rightarrow> EmitInput" where
  "emit_on t \<equiv> \<lparr>in_topic = t, in_data = JNum 1, in_traceId = None, in_flows = None\<rparr>"

abbreviation sample_event :: Event where
  "sample_event \<equiv>
     \<lparr>ev_topic = ''b'', ev_data = JNum 1, ev_traceId = ''T1'', ev_flows = [''flow''],
      ev_logger = ChildLogger ''S''\<rparr>"

abbreviation forged_emit :: EmitInput where
  "forged_emit \<equiv>
     \<lparr>in_topic = ''b'', in_data = JNum 1, in_traceId = Some ''FORGED'',
      in_flows = Some [''other'']\<rparr>"



text \<open>A store that holds a value for each of two traces.\<close>

abbreviation two_traces :: state_store where
  "two_traces \<equiv> [((''T1'', ''user''), JStr ''alice''), ((''T2'', ''user''), JStr ''bob'')]"

section \<open>Properties of the executor\<close>

subsection \<open>Frames and the executor's variables\<close>

lemma handlers_respond [simp]: "handlers (respond r v s) = handlers s"
  and result_respond [simp]: "result (respond r v s) = result s"
  and promise_respond [simp]: "promise (respond r v s) = promise s"
  and emitted_respond [simp]: "emitted (respond r v s) = emitted s"
  and invalidEmits_respond [simp]: "invalidEmits (respond r v s) = invalidEmits s"
  and state_respond [simp]: "state (respond r v s) = state s"
  by (simp_all add: respond_def)

lemma emit_handler_fields [simp]:
  "handlers (emit_handler opts i s) = handlers s"
  "result (emit_handler opts i s) = result s"
  "promise (emit_handler opts i s) = promise s"
  "state (emit_handler opts i s) = state s"
  by (simp_all add: emit_handler_def)

text \<open>Once the handlers are torn down, no frame changes the result or the promise.\<close>

lemma onMessage_no_handlers:
  "handlers s = [] \<Longrightarrow>
     handlers (onMessage opts w s) = [] \<and> result (onMessage opts w s) = result s
     \<and> promise (onMessage opts w s) = promise s \<and> emitted (onMessage opts w s) = emitted s"
  by (cases w) (simp_all add: onMessage_def)

lemma runMessages_Cons: "runMessages opts (w # ws) s = runMessages opts ws (onMessage opts w s)"
  by (simp add: runMessages_def)

lemma runMessages_no_handlers:
  "handlers s = [] \<Longrightarrow>
     handlers (runMessages opts ws s) = [] \<and> result (runMessages opts ws s) = result s
     \<and> promise (runMessages opts ws s) = promise s \<and> emitted (runMessages opts ws s) = emitted s"
proof (induction ws arbitrary: s)
  case Nil
  then show ?case by (simp add: runMessages_def)
next
  case (Cons w ws)
  from Cons.prems have h: "handlers (onMessage opts w s) = []"
    using onMessage_no_handlers by blast
  from Cons.IH [OF h] onMessage_no_handlers [OF Cons.prems, of opts w] show ?case
    by (simp add: runMessages_Cons)
qed

lemma run_handler_promise: "promise (run_handler opts r s) = promise s"
  by (cases r) (simp_all add: processManager_kill_def)

lemma run_handler_handlers: "r \<noteq> Close \<Longrightarrow> handlers (run_handler opts r s) = handlers s"
  by (cases r) simp_all

lemma run_handler_result:
  "(\<forall>v. r \<noteq> Result v) \<Longrightarrow> result (run_handler opts r s) = result s"
  by (cases r) (simp_all add: processManager_kill_def)

lemma onMessage_promise: "promise (onMessage opts w s) = promise s"
  by (cases w) (simp_all add: onMessage_def run_handler_promise)

lemma onMessage_handlers: "w \<noteq> Rpc Close \<Longrightarrow> handlers (onMessage opts w s) = handlers s"
  by (cases w) (auto simp add: onMessage_def run_handler_handlers)

lemma onMessage_result:
  "(\<forall>v. w \<noteq> Rpc (Result v)) \<Longrightarrow> result (onMessage opts w s) = result s"
  by (cases w) (auto simp add: onMessage_def run_handler_result)

lemma runMessages_promise: "promise (runMessages opts ws s) = promise s"
  by (induction ws arbitrary: s) (simp_all add: runMessages_def onMessage_promise)

lemma close_registered: "''close'' \<in> set (registered_handlers names)"
  and result_registered: "''result'' \<in> set (registered_handlers names)"
  and emit_registered: "''emit'' \<in> set (registered_handlers names)"
  by (simp_all add: registered_handlers_def)

lemma received_results_simps:
  "received_results [] = []"
  "received_results (Rpc Close # ws) = []"
  "received_results (Rpc (Result v) # ws) = v # received_results ws"
  "w \<noteq> Rpc Close \<Longrightarrow> (\<forall>v. w \<noteq> Rpc (Result v)) \<Longrightarrow> received_results (w # ws) = received_results ws"
proof -
  show "received_results [] = []" by (simp add: received_results_def)
  show "received_results (Rpc Close # ws) = []" by (simp add: received_results_def)
  show "received_results (Rpc (Result v) # ws) = v # received_results ws"
    by (simp add: received_results_def)
  show "w \<noteq> Rpc Close \<Longrightarrow> (\<forall>v. w \<noteq> Rpc (Result v)) \<Longrightarrow> received_results (w # ws) = received_results ws"
    by (cases w) (auto simp add: received_results_def split: rpc.splits)
qed

text \<open>The stored result after the worker's frames: the last received one, if any.\<close>

lemma runMessages_result:
  "handlers s = registered_handlers names \<Longrightarrow>
     result (runMessages opts ws s)
       = (if received_results ws = [] then result s else last (received_results ws))"
proof (induction ws arbitrary: s)
  case Nil
  then show ?case by (simp add: runMessages_def received_results_simps)
next
  case (Cons w ws)
  consider (close) "w = Rpc Close" | (res) v where "w = Rpc (Result v)"
    | (other) "w \<noteq> Rpc Close" "\<forall>v. w \<noteq> Rpc (Result v)"
    by blast
  then show ?case
  proof cases
    case close
    have "handlers (onMessage opts w s) = []"
      using Cons.prems close
      by (simp add: onMessage_def close_registered processManager_kill_def)
    moreover have "result (onMessage opts w s) = result s"
      using close by (simp add: onMessage_result)
    ultimately show ?thesis
      using runMessages_no_handlers [of "onMessage opts w s" opts ws] close
      by (simp add: runMessages_Cons received_results_simps)
  next
    case res
    have h: "handlers (onMessage opts w s) = registered_handlers names"
      using Cons.prems res by (simp add: onMessage_handlers)
    have r: "result (onMessage opts w s) = v"
      using Cons.prems res by (simp add: onMessage_def result_registered)
    show ?thesis
      using Cons.IH [OF h] r res by (simp add: runMessages_Cons received_results_simps)
  next
    case other
    have h: "handlers (onMessage opts w s) = registered_handlers names"
      using Cons.prems other by (simp add: onMessage_handlers)
    have r: "result (onMessage opts w s) = result s"
      using other by (simp add: onMessage_result)
    show ?thesis
      using Cons.IH [OF h] r other by (simp add: runMessages_Cons received_results_simps)
  qed
qed

subsection \<open>Whole invocations\<close>

lemma initial_fields:
  "result (initial_state st ss) = JUndefined" "promise (initial_state st ss) = None"
  "emitted (initial_state st ss) = []"
  by (simp_all add: initial_state_def)

text \<open>How an invocation that spawned and then closed settles its promise.\<close>

lemma callStepFile_close:
  assumes "getLanguageBasedRunner d tm (Some (filePath (step opts))) = Inr r"
  shows "promise (callStepFile d tm opts st ss Spawned ws (ProcessClose c))
    = Some (if c \<noteq> Some 0 \<and> c \<noteq> None
            then Rejected (Reason (''Process exited with code '' @ string_of_code c))
            else Resolved (if received_results ws = [] then JUndefined
                           else last (received_results ws)))"
proof -
  let ?s1 = "(initial_state st ss)\<lparr>spawned := Some \<lparr>pm_command = command r,
                pm_args = args r @ [runner r, filePath (step opts)],
                pm_envelope = \<lparr>env_data = data opts, env_flows = config_flows (config (step opts)),
                      env_traceId = traceId opts,
                      env_contextInFirstArg = contextInFirstArg opts,
                      env_streams = lockedData opts\<rparr>\<rparr>,
              tracked := tracked (initial_state st ss) @ [''step_execution_started''],
              handlers := registered_handlers (lockedData opts)\<rparr>"
  let ?s2 = "runMessages opts ws ?s1"
  have c: "callStepFile d tm opts st ss Spawned ws (ProcessClose c) = onProcessClose opts c ?s2"
    using assms by (simp add: callStepFile_def Let_def)
  have p: "promise ?s2 = None"
    by (simp add: runMessages_promise initial_fields)
  have h: "handlers ?s1 = registered_handlers (lockedData opts)" by simp
  have r: "result ?s2 = (if received_results ws = [] then JUndefined else last (received_results ws))"
    using runMessages_result [OF h, of opts ws] by (simp add: initial_fields)
  show ?thesis
    unfolding c
    by (simp add: onProcessClose_def processManager_close_def Let_def p r settle_def)
qed


lemma received_results_none:
  "(\<forall>v. Rpc (Result v) \<notin> set ws) \<Longrightarrow> received_results ws = []"
proof (induction ws)
  case Nil
  show ?case by (simp add: received_results_simps)
next
  case (Cons w ws)
  then have nr: "\<forall>v. w \<noteq> Rpc (Result v)" and ih: "received_results ws = []"
    by auto
  show ?case
  proof (cases "w = Rpc Close")
    case True
    then show ?thesis by (simp add: received_results_simps)
  next
    case False
    with nr ih show ?thesis by (simp add: received_results_simps)
  qed
qed

lemma received_results_append:
  "Rpc Close \<notin> set pre \<Longrightarrow> received_results (pre @ ws) = received_results pre @ received_results ws"
proof (induction pre)
  case Nil
  show ?case by (simp add: received_results_simps)
next
  case (Cons w pre)
  then have nc: "w \<noteq> Rpc Close" and ih: "received_results (pre @ ws) = received_results pre @ received_results ws"
    by auto
  show ?case
  proof (cases "\<exists>v. w = Rpc (Result v)")
    case True
    then show ?thesis using ih by (auto simp add: received_results_simps)
  next
    case False
    then show ?thesis using ih nc by (simp add: received_results_simps)
  qed
qed

lemma received_results_last:
  assumes "Rpc Close \<notin> set pre" and "\<forall>u. Rpc (Result u) \<notin> set post"
  shows "received_results (pre @ Rpc (Result v) # post) = received_results pre @ [v]"
  using assms received_results_none [of post]
  by (simp add: received_results_append received_results_simps)

lemma emitted_onMessage:
  "x \<in> set (emitted (onMessage opts w s)) \<Longrightarrow>
     x \<in> set (emitted s) \<or>
     (ev_traceId (fst x) = traceId opts \<and> ev_flows (fst x) = config_flows (config (step opts))
      \<and> snd x = filePath (step opts))"
proof (cases w)
  case (Rpc r)
  assume "x \<in> set (emitted (onMessage opts w s))"
  with Rpc show ?thesis
    by (cases r) (auto simp add: onMessage_def emit_handler_def processManager_kill_def split: if_splits)
qed (auto simp add: onMessage_def)

lemma emitted_runMessages:
  "x \<in> set (emitted (runMessages opts ws s)) \<Longrightarrow>
     x \<in> set (emitted s) \<or>
     (ev_traceId (fst x) = traceId opts \<and> ev_flows (fst x) = config_flows (config (step opts))
      \<and> snd x = filePath (step opts))"
proof (induction ws arbitrary: s)
  case Nil
  then show ?case by (simp add: runMessages_def)
next
  case (Cons w ws)
  from Cons.prems have "x \<in> set (emitted (runMessages opts ws (onMessage opts w s)))"
    by (simp add: runMessages_Cons)
  from Cons.IH [OF this] emitted_onMessage [of x opts w s] show ?case by blast
qed

lemma emitted_exit:
  "emitted (onProcessClose opts c s) = emitted s"
  "emitted (onProcessError opts cmd err s) = emitted s"
  by (simp_all add: onProcessClose_def onProcessError_def processManager_close_def Let_def)

lemma emitted_callStepFile:
  assumes "x \<in> set (emitted (callStepFile d tm opts st ss spawn ws ending))"
  shows "ev_traceId (fst x) = traceId opts \<and> ev_flows (fst x) = config_flows (config (step opts))
      \<and> snd x = filePath (step opts)"
proof (cases "getLanguageBasedRunner d tm (Some (filePath (step opts)))")
  case (Inl thrown)
  with assms show ?thesis by (simp add: callStepFile_def Let_def initial_fields)
next
  case (Inr r)
  show ?thesis
  proof (cases spawn)
    case (SpawnRejected err)
    with Inr assms show ?thesis by (simp add: callStepFile_def Let_def initial_fields)
  next
    case Spawned
    let ?s1 = "(initial_state st ss)\<lparr>spawned := Some \<lparr>pm_command = command r,
                pm_args = args r @ [runner r, filePath (step opts)],
                pm_envelope = \<lparr>env_data = data opts, env_flows = config_flows (config (step opts)),
                      env_traceId = traceId opts,
                      env_contextInFirstArg = contextInFirstArg opts,
                      env_streams = lockedData opts\<rparr>\<rparr>,
              tracked := tracked (initial_state st ss) @ [''step_execution_started''],
              handlers := registered_handlers (lockedData opts)\<rparr>"
    from assms Inr Spawned have "x \<in> set (emitted (runMessages opts ws ?s1))"
      by (cases ending) (simp_all add: callStepFile_def Let_def emitted_exit)
    from emitted_runMessages [OF this] show ?thesis by (simp add: initial_fields)
  qed
qed

subsection \<open>The state store\<close>

lemma map_of_filter_fst:
  "map_of (filter (\<lambda>(k, v). P k) al) k' = (if P k' then map_of al k' else None)"
  by (induction al) auto

lemma state_get_set:
  "state_get (state_set st t k v) t' k' = (if t' = t \<and> k' = k then v else state_get st t' k')"
  by (simp add: state_get_def state_set_def update_conv')

lemma state_get_delete:
  "state_get (state_delete st t k) t' k' = (if t' = t \<and> k' = k then JNull else state_get st t' k')"
  by (simp add: state_get_def state_delete_def delete_conv')

lemma state_get_clear:
  "state_get (state_clear st t) t' k' = (if t' = t then JNull else state_get st t' k')"
  using map_of_filter_fst [of "\<lambda>tk. fst tk \<noteq> t" st "(t', k')"]
  by (simp add: state_get_def state_clear_def)

lemma state_registered:
  "''state.get'' \<in> set (registered_handlers names)"
  "''state.set'' \<in> set (registered_handlers names)"
  "''state.delete'' \<in> set (registered_handlers names)"
  "''state.clear'' \<in> set (registered_handlers names)"
  "''state.getGroup'' \<in> set (registered_handlers names)"
  by (simp_all add: registered_handlers_def)

text \<open>Only the \<^verbatim>\<open>emit\<close> handler reads the options.\<close>

lemma run_handler_options:
  "(\<forall>i. r \<noteq> Emit i) \<Longrightarrow> run_handler opts' r s = run_handler opts r s"
  by (cases r) simp_all

subsection \<open>File extensions\<close>

lemma suffix_same_length: "suffix a p \<Longrightarrow> suffix b p \<Longrightarrow> length a = length b \<Longrightarrow> a = b"
  by (auto simp: suffix_def)

lemma ext_py_not_rb: "suffix ''.py'' p \<Longrightarrow> \<not> suffix ''.rb'' p"
  using suffix_same_length [of "''.py''" p "''.rb''"] by auto

lemma ext_py_rb_not_node:
  "suffix ''.js'' p \<or> suffix ''.ts'' p \<Longrightarrow> \<not> suffix ''.py'' p \<and> \<not> suffix ''.rb'' p"
  using suffix_same_length [of "''.js''" p "''.py''"] suffix_same_length [of "''.js''" p "''.rb''"]
    suffix_same_length [of "''.ts''" p "''.py''"] suffix_same_length [of "''.ts''" p "''.rb''"]
  by auto

subsection \<open>The Node runner and the exit code\<close>

lemma node_runner_selected:
  "suffix ''.js'' p \<or> suffix ''.ts'' p \<Longrightarrow> \<exists>r. getLanguageBasedRunner d tm (Some p) = Inr r"
  using ext_py_rb_not_node [of p] by (auto simp add: getLanguageBasedRunner_def)

lemma string_of_int_1: "string_of_int 1 = ''1''"
  by (simp add: string_of_int_def string_of_nat.simps digit_char_def)

section \<open>Claims\<close>

text \<open>
  C6. The runner is selected by the extension of the step file: \<^verbatim>\<open>.py\<close> gives the
  Python runner (command \<^verbatim>\<open>python\<close>), \<^verbatim>\<open>.rb\<close> the Ruby runner (command \<^verbatim>\<open>ruby\<close>),
  \<^verbatim>\<open>.js\<close> and \<^verbatim>\<open>.ts\<close> the Node runner (command \<^verbatim>\<open>node\<close>); with any other extension
  \<^verbatim>\<open>callStepFile\<close> rejects with the error "Unsupported file extension ..." and no
  process is spawned, whatever the environment would have done afterwards.
\<close>

theorem runner_by_extension:
  "(suffix ''.py'' (filePath (step opts)) \<longrightarrow>
      (\<exists>r. getLanguageBasedRunner d tm (Some (filePath (step opts))) = Inr r \<and> command r = ''python''
           \<and> runner r = path_join [d, ''python'', ''python-runner.py'']))
   \<and> (suffix ''.rb'' (filePath (step opts)) \<longrightarrow>
      (\<exists>r. getLanguageBasedRunner d tm (Some (filePath (step opts))) = Inr r \<and> command r = ''ruby''
           \<and> runner r = path_join [d, ''ruby'', ''ruby-runner.rb'']))
   \<and> (suffix ''.js'' (filePath (step opts)) \<or> suffix ''.ts'' (filePath (step opts)) \<longrightarrow>
      (\<exists>r. getLanguageBasedRunner d tm (Some (filePath (step opts))) = Inr r \<and> command r = ''node''
           \<and> runner r = path_join [d, ''node'', if tm then ''node-runner.ts'' else ''node-runner.js'']))
   \<and> (\<not> suffix ''.py'' (filePath (step opts)) \<and> \<not> suffix ''.rb'' (filePath (step opts))
       \<and> \<not> suffix ''.js'' (filePath (step opts)) \<and> \<not> suffix ''.ts'' (filePath (step opts)) \<longrightarrow>
      promise (callStepFile d tm opts st ss spawn ws ending)
        = Some (Rejected (ErrorObject (Error (''Unsupported file extension '' @ filePath (step opts)))))
      \<and> spawned (callStepFile d tm opts st ss spawn ws ending) = None
      \<and> tracked (callStepFile d tm opts st ss spawn ws ending) = [])"
proof (intro conjI impI)
  assume "suffix ''.py'' (filePath (step opts))"
  then show "\<exists>r. getLanguageBasedRunner d tm (Some (filePath (step opts))) = Inr r \<and> command r = ''python''
           \<and> runner r = path_join [d, ''python'', ''python-runner.py'']"
    by (simp add: getLanguageBasedRunner_def)
next
  assume rb: "suffix ''.rb'' (filePath (step opts))"
  then have "\<not> suffix ''.py'' (filePath (step opts))" using ext_py_not_rb by blast
  with rb show "\<exists>r. getLanguageBasedRunner d tm (Some (filePath (step opts))) = Inr r \<and> command r = ''ruby''
           \<and> runner r = path_join [d, ''ruby'', ''ruby-runner.rb'']"
    by (simp add: getLanguageBasedRunner_def)
next
  assume nd: "suffix ''.js'' (filePath (step opts)) \<or> suffix ''.ts'' (filePath (step opts))"
  then have "\<not> suffix ''.py'' (filePath (step opts)) \<and> \<not> suffix ''.rb'' (filePath (step opts))"
    by (rule ext_py_rb_not_node)
  with nd show "\<exists>r. getLanguageBasedRunner d tm (Some (filePath (step opts))) = Inr r \<and> command r = ''node''
           \<and> runner r = path_join [d, ''node'', if tm then ''node-runner.ts'' else ''node-runner.js'']"
    by (auto simp add: getLanguageBasedRunner_def)
next
  assume no: "\<not> suffix ''.py'' (filePath (step opts)) \<and> \<not> suffix ''.rb'' (filePath (step opts))
       \<and> \<not> suffix ''.js'' (filePath (step opts)) \<and> \<not> suffix ''.ts'' (filePath (step opts))"
  then have g: "getLanguageBasedRunner d tm (Some (filePath (step opts)))
      = Inl (Error (''Unsupported file extension '' @ filePath (step opts)))"
    by (simp add: getLanguageBasedRunner_def)
  show "promise (callStepFile d tm opts st ss spawn ws ending)
        = Some (Rejected (ErrorObject (Error (''Unsupported file extension '' @ filePath (step opts)))))"
    by (simp add: callStepFile_def g initial_state_def settle_def)
  show "spawned (callStepFile d tm opts st ss spawn ws ending) = None"
    by (simp add: callStepFile_def g initial_state_def)
  show "tracked (callStepFile d tm opts st ss spawn ws ending) = []"
    by (simp add: callStepFile_def g initial_state_def)
qed

text \<open>C6 at four step files, one for each branch.\<close>

theorem runner_by_extension_witness:
  "suffix ''.py'' ''steps/a.step.py''
   \<and> (\<exists>r. getLanguageBasedRunner ''/core'' False (Some ''steps/a.step.py'') = Inr r
          \<and> command r = ''python'' \<and> runner r = ''/core/python/python-runner.py'')
   \<and> suffix ''.rb'' ''steps/b.step.rb''
   \<and> (\<exists>r. getLanguageBasedRunner ''/core'' False (Some ''steps/b.step.rb'') = Inr r
          \<and> command r = ''ruby'' \<and> runner r = ''/core/ruby/ruby-runner.rb'')
   \<and> suffix ''.ts'' ''steps/c.step.ts''
   \<and> (\<exists>r. getLanguageBasedRunner ''/core'' False (Some ''steps/c.step.ts'') = Inr r
          \<and> command r = ''node'' \<and> runner r = ''/core/node/node-runner.js'')
   \<and> \<not> suffix ''.py'' ''steps/d.step.go'' \<and> \<not> suffix ''.rb'' ''steps/d.step.go''
   \<and> \<not> suffix ''.js'' ''steps/d.step.go'' \<and> \<not> suffix ''.ts'' ''steps/d.step.go''
   \<and> promise (callStepFile ''/core'' False (options_for ''steps/d.step.go'')
         [] [] Spawned [] (ProcessClose (Some 0)))
       = Some (Rejected (ErrorObject (Error ''Unsupported file extension steps/d.step.go'')))
   \<and> spawned (callStepFile ''/core'' False (options_for ''steps/d.step.go'')
         [] [] Spawned [] (ProcessClose (Some 0))) = None"
proof -
  have py: "suffix ''.py'' ''steps/a.step.py''" by (simp add: suffix_to_prefix)
  have rb: "suffix ''.rb'' ''steps/b.step.rb''" by (simp add: suffix_to_prefix)
  have ts: "suffix ''.ts'' ''steps/c.step.ts''" by (simp add: suffix_to_prefix)
  have go: "\<not> suffix ''.py'' ''steps/d.step.go'' \<and> \<not> suffix ''.rb'' ''steps/d.step.go''
     \<and> \<not> suffix ''.js'' ''steps/d.step.go'' \<and> \<not> suffix ''.ts'' ''steps/d.step.go''"
    by (simp add: suffix_to_prefix)
  show ?thesis
    using py rb ts go
      runner_by_extension [where d = "''/core''" and tm = False and opts =
         "options_for ''steps/a.step.py''"]
      runner_by_extension [where d = "''/core''" and tm = False and opts =
         "options_for ''steps/b.step.rb''"]
      runner_by_extension [where d = "''/core''" and tm = False and opts =
         "options_for ''steps/c.step.ts''"]
      runner_by_extension [where d = "''/core''" and tm = False and st = "[]" and ss = "[]"
         and spawn = Spawned and ws = "[]" and ending = "ProcessClose (Some 0)" and opts =
         "options_for ''steps/d.step.go''"]
    by simp
qed

text \<open>
  C2, as the code has it. Each state RPC is executed with the \<^verbatim>\<open>traceId\<close> (for
  \<^verbatim>\<open>state.getGroup\<close>, the \<^verbatim>\<open>groupId\<close>) that the worker put in the RPC input; the executor's
  own \<^verbatim>\<open>traceId\<close> plays no part in it. A \<^verbatim>\<open>state.set\<close>, \<^verbatim>\<open>state.delete\<close> or
  \<^verbatim>\<open>state.clear\<close> naming trace \<open>t\<close> leaves what \<^verbatim>\<open>state.get\<close> returns for every other
  trace \<open>t'\<close> unchanged.
\<close>

theorem state_rpc_uses_input_traceId:
  assumes "handlers s = registered_handlers names"
  shows "onMessage opts (Rpc (StateGet t k)) s
           = s\<lparr>responses := responses s @ [(''state.get'', state_get (state s) t k)]\<rparr>
    \<and> onMessage opts (Rpc (StateSet t k v)) s
           = s\<lparr>state := state_set (state s) t k v,
               responses := responses s @ [(''state.set'', JUndefined)]\<rparr>
    \<and> onMessage opts (Rpc (StateDelete t k)) s
           = s\<lparr>state := state_delete (state s) t k,
               responses := responses s @ [(''state.delete'', JUndefined)]\<rparr>
    \<and> onMessage opts (Rpc (StateClear t)) s
           = s\<lparr>state := state_clear (state s) t,
               responses := responses s @ [(''state.clear'', JUndefined)]\<rparr>
    \<and> onMessage opts (Rpc (StateGetGroup t)) s
           = s\<lparr>responses := responses s @ [(''state.getGroup'', JArr (state_getGroup (state s) t))]\<rparr>
    \<and> (is_state_rpc r \<longrightarrow> onMessage (opts\<lparr>traceId := u\<rparr>) (Rpc r) s = onMessage opts (Rpc r) s)
    \<and> (t' \<noteq> t \<longrightarrow>
          state_get (state (onMessage opts (Rpc (StateSet t k v)) s)) t' k' = state_get (state s) t' k'
        \<and> state_get (state (onMessage opts (Rpc (StateDelete t k)) s)) t' k' = state_get (state s) t' k'
        \<and> state_get (state (onMessage opts (Rpc (StateClear t)) s)) t' k' = state_get (state s) t' k')"
proof (intro conjI impI)
  show "onMessage opts (Rpc (StateGet t k)) s
           = s\<lparr>responses := responses s @ [(''state.get'', state_get (state s) t k)]\<rparr>"
    using assms by (simp add: onMessage_def state_registered respond_def)
  show "onMessage opts (Rpc (StateSet t k v)) s
           = s\<lparr>state := state_set (state s) t k v,
               responses := responses s @ [(''state.set'', JUndefined)]\<rparr>"
    using assms by (simp add: onMessage_def state_registered respond_def)
  show "onMessage opts (Rpc (StateDelete t k)) s
           = s\<lparr>state := state_delete (state s) t k,
               responses := responses s @ [(''state.delete'', JUndefined)]\<rparr>"
    using assms by (simp add: onMessage_def state_registered respond_def)
  show "onMessage opts (Rpc (StateClear t)) s
           = s\<lparr>state := state_clear (state s) t,
               responses := responses s @ [(''state.clear'', JUndefined)]\<rparr>"
    using assms by (simp add: onMessage_def state_registered respond_def)
  show "onMessage opts (Rpc (StateGetGroup t)) s
           = s\<lparr>responses := responses s @ [(''state.getGroup'', JArr (state_getGroup (state s) t))]\<rparr>"
    using assms by (simp add: onMessage_def state_registered respond_def)
next
  assume "is_state_rpc r"
  then have "\<forall>i. r \<noteq> Emit i" by auto
  then show "onMessage (opts\<lparr>traceId := u\<rparr>) (Rpc r) s = onMessage opts (Rpc r) s"
    by (simp add: onMessage_def run_handler_options [of r "opts\<lparr>traceId := u\<rparr>" s opts])
next
  assume d: "t' \<noteq> t"
  show "state_get (state (onMessage opts (Rpc (StateSet t k v)) s)) t' k' = state_get (state s) t' k'"
    using assms d by (simp add: onMessage_def state_registered state_get_set)
  show "state_get (state (onMessage opts (Rpc (StateDelete t k)) s)) t' k' = state_get (state s) t' k'"
    using assms d by (simp add: onMessage_def state_registered state_get_delete)
  show "state_get (state (onMessage opts (Rpc (StateClear t)) s)) t' k' = state_get (state s) t' k'"
    using assms d by (simp add: onMessage_def state_registered state_get_clear)
qed

text \<open>
  C2, as the code has it, on a store that holds a value for each of two traces: writing
  and clearing under \<^verbatim>\<open>T1\<close> leaves the value of \<^verbatim>\<open>T2\<close> in place.
\<close>

theorem state_rpc_uses_input_traceId_witness:
  "handlers (running_with two_traces) = registered_handlers []
   \<and> is_state_rpc (StateGet ''T1'' ''user'')
   \<and> ''T2'' \<noteq> ''T1''
   \<and> state_get (state (onMessage sample_options
         (Rpc (StateSet ''T1'' ''user'' (JStr ''carol''))) (running_with two_traces))) ''T2'' ''user'' = JStr ''bob''
   \<and> state_get (state (onMessage sample_options
         (Rpc (StateClear ''T1'')) (running_with two_traces))) ''T2'' ''user'' = JStr ''bob''"
proof -
  have h: "handlers (running_with two_traces) = registered_handlers []"
    by simp
  have r: "is_state_rpc (StateGet ''T1'' ''user'')" by simp
  have d: "''T2'' \<noteq> ''T1''" by simp
  have g: "state_get (state (running_with two_traces)) ''T2'' ''user'' = JStr ''bob''"
    by (simp add: initial_state_def state_get_def)
  note T = state_rpc_uses_input_traceId [OF h, where t = "''T1''" and t' = "''T2''" and k = "''user''"
        and k' = "''user''" and v = "JStr ''carol''" and r = "StateGet ''T1'' ''user''" and u = "''T9''"
        and opts = sample_options]
  from T d have a0: "state_get (state (onMessage sample_options
         (Rpc (StateSet ''T1'' ''user'' (JStr ''carol''))) (running_with two_traces))) ''T2'' ''user''
      = state_get (state (running_with two_traces)) ''T2'' ''user''"
    by blast
  from a0 g have a: "state_get (state (onMessage sample_options
         (Rpc (StateSet ''T1'' ''user'' (JStr ''carol''))) (running_with two_traces))) ''T2'' ''user'' = JStr ''bob''"
    by (rule trans)
  from T d have b0: "state_get (state (onMessage sample_options
         (Rpc (StateClear ''T1'')) (running_with two_traces))) ''T2'' ''user''
      = state_get (state (running_with two_traces)) ''T2'' ''user''"
    by blast
  from b0 g have b: "state_get (state (onMessage sample_options
         (Rpc (StateClear ''T1'')) (running_with two_traces))) ''T2'' ''user'' = JStr ''bob''"
    by (rule trans)
  show ?thesis
    using h r d a b by blast
qed

text \<open>
  C2, as the claim states it, fails: an invocation running under trace \<^verbatim>\<open>T1\<close> that names
  trace \<^verbatim>\<open>T2\<close> in a \<^verbatim>\<open>state.get\<close> is answered with the value stored under \<^verbatim>\<open>T2\<close>, and
  a \<^verbatim>\<open>state.set\<close> naming \<^verbatim>\<open>T2\<close> overwrites it.
\<close>

theorem state_rpc_reaches_other_trace:
  "responses (callStepFile ''/core'' False
      \<lparr>step = \<lparr>filePath = ''steps/s.step.ts'', version = ''1'',
               config = EventConfig ''S'' [''a''] [Topic ''b''] [''flow'']\<rparr>,
       traceId = ''T1'', data = JNull, contextInFirstArg = False, lockedData = []\<rparr>
      [((''T2'', ''user''), JStr ''bob'')] [] Spawned
      [Rpc (StateGet ''T2'' ''user'')] (ProcessClose (Some 0)))
     = [(''state.get'', JStr ''bob'')]
   \<and> state (callStepFile ''/core'' False
      \<lparr>step = \<lparr>filePath = ''steps/s.step.ts'', version = ''1'',
               config = EventConfig ''S'' [''a''] [Topic ''b''] [''flow'']\<rparr>,
       traceId = ''T1'', data = JNull, contextInFirstArg = False, lockedData = []\<rparr>
      [((''T2'', ''user''), JStr ''bob'')] [] Spawned
      [Rpc (StateSet ''T2'' ''user'' (JStr ''eve''))] (ProcessClose (Some 0)))
     = [((''T2'', ''user''), JStr ''eve'')]"
  by (simp add: callStepFile_def getLanguageBasedRunner_def suffix_to_prefix Let_def
      initial_state_def runMessages_def onMessage_def registered_handlers_def respond_def
      onProcessClose_def processManager_close_def settle_def state_get_def state_set_def)

text \<open>
  C1. When the \<^verbatim>\<open>emit\<close> handler is registered, an \<^verbatim>\<open>emit\<close> frame is forwarded to the
  event manager exactly when \<^verbatim>\<open>isAllowedToEmit\<close> accepts its topic, that is when the topic
  is among the topics of the step's \<^verbatim>\<open>emits\<close>. Otherwise nothing is forwarded and one
  invalid-emit warning is printed for the step and the topic. Either way the handlers stay
  registered, the stored result and the promise are untouched, and a later exit with
  code 0 resolves the promise.
\<close>

theorem emit_forwarded_iff_allowed:
  assumes "''emit'' \<in> set (handlers s)"
  shows "(isAllowedToEmit (step opts) (in_topic inp)
            \<longleftrightarrow> in_topic inp \<in> emit_topic ` set (config_emits (config (step opts))))
    \<and> (isAllowedToEmit (step opts) (in_topic inp) \<longrightarrow>
          emitted (onMessage opts (Rpc (Emit inp)) s)
            = emitted s @ [(\<lparr>ev_topic = in_topic inp, ev_data = in_data inp,
                              ev_traceId = traceId opts,
                              ev_flows = config_flows (config (step opts)),
                              ev_logger = ChildLogger (config_name (config (step opts)))\<rparr>,
                            filePath (step opts))]
          \<and> invalidEmits (onMessage opts (Rpc (Emit inp)) s) = invalidEmits s)
    \<and> (\<not> isAllowedToEmit (step opts) (in_topic inp) \<longrightarrow>
          emitted (onMessage opts (Rpc (Emit inp)) s) = emitted s
          \<and> invalidEmits (onMessage opts (Rpc (Emit inp)) s)
              = invalidEmits s @ [(step opts, in_topic inp)])
    \<and> handlers (onMessage opts (Rpc (Emit inp)) s) = handlers s
    \<and> result (onMessage opts (Rpc (Emit inp)) s) = result s
    \<and> promise (onMessage opts (Rpc (Emit inp)) s) = promise s
    \<and> promise (onProcessClose opts (Some 0) (onMessage opts (Rpc (Emit inp)) s))
        = settle (Resolved (result s)) (promise s)"
proof -
  have m: "onMessage opts (Rpc (Emit inp)) s = respond (Emit inp) JUndefined (emit_handler opts inp s)"
    using assms by (simp add: onMessage_def)
  have a: "isAllowedToEmit (step opts) (in_topic inp)
            \<longleftrightarrow> in_topic inp \<in> emit_topic ` set (config_emits (config (step opts)))"
    by (simp add: isAllowedToEmit_def)
  have b: "isAllowedToEmit (step opts) (in_topic inp) \<longrightarrow>
          emitted (onMessage opts (Rpc (Emit inp)) s)
            = emitted s @ [(\<lparr>ev_topic = in_topic inp, ev_data = in_data inp,
                              ev_traceId = traceId opts,
                              ev_flows = config_flows (config (step opts)),
                              ev_logger = ChildLogger (config_name (config (step opts)))\<rparr>,
                            filePath (step opts))]
          \<and> invalidEmits (onMessage opts (Rpc (Emit inp)) s) = invalidEmits s"
    by (simp add: m emit_handler_def)
  have c: "\<not> isAllowedToEmit (step opts) (in_topic inp) \<longrightarrow>
          emitted (onMessage opts (Rpc (Emit inp)) s) = emitted s
          \<and> invalidEmits (onMessage opts (Rpc (Emit inp)) s)
              = invalidEmits s @ [(step opts, in_topic inp)]"
    by (simp add: m emit_handler_def)
  have d: "handlers (onMessage opts (Rpc (Emit inp)) s) = handlers s
    \<and> result (onMessage opts (Rpc (Emit inp)) s) = result s
    \<and> promise (onMessage opts (Rpc (Emit inp)) s) = promise s"
    by (simp add: m)
  have e: "promise (onProcessClose opts (Some 0) (onMessage opts (Rpc (Emit inp)) s))
        = settle (Resolved (result s)) (promise s)"
    by (simp add: m onProcessClose_def processManager_close_def Let_def)
  from a b c d e show ?thesis by blast
qed

text \<open>
  C1 for a step that declares \<^verbatim>\<open>emits: ['b']\<close>: an emit on \<^verbatim>\<open>b\<close> is forwarded, an emit on
  \<^verbatim>\<open>c\<close> is dropped with a warning and the step still succeeds.
\<close>

theorem emit_forwarded_iff_allowed_witness:
  "''emit'' \<in> set (handlers sample_running)
   \<and> isAllowedToEmit (step sample_options) ''b''
   \<and> emitted (onMessage sample_options (Rpc (Emit (emit_on ''b''))) sample_running) = [(sample_event, ''steps/s.step.ts'')]
   \<and> invalidEmits (onMessage sample_options (Rpc (Emit (emit_on ''b''))) sample_running) = []
   \<and> \<not> isAllowedToEmit (step sample_options) ''c''
   \<and> emitted (onMessage sample_options (Rpc (Emit (emit_on ''c''))) sample_running) = []
   \<and> invalidEmits (onMessage sample_options (Rpc (Emit (emit_on ''c''))) sample_running) = [(step sample_options, ''c'')]
   \<and> promise (onProcessClose sample_options (Some 0) (onMessage sample_options (Rpc (Emit (emit_on ''c''))) sample_running))
       = Some (Resolved JUndefined)"
proof -
  have h: "''emit'' \<in> set (handlers sample_running)"
    by (simp add: registered_handlers_def)
  show ?thesis
    using h
      emit_forwarded_iff_allowed [OF h, where opts = sample_options and inp = "emit_on ''b''"]
      emit_forwarded_iff_allowed [OF h, where opts = sample_options and inp = "emit_on ''c''"]
    by (simp add: isAllowedToEmit_def initial_state_def settle_def)
qed

text \<open>
  C3. The \<^verbatim>\<open>traceId\<close> and \<^verbatim>\<open>flows\<close> that the worker put in an \<^verbatim>\<open>emit\<close> input have no
  effect on what the executor does with the frame, and every event an invocation hands to
  the event manager carries the executor's own \<^verbatim>\<open>traceId\<close> and the step's configured
  \<^verbatim>\<open>flows\<close>.
\<close>

theorem emit_traceId_injected:
  "onMessage opts (Rpc (Emit (inp\<lparr>in_traceId := t, in_flows := f\<rparr>))) s
     = onMessage opts (Rpc (Emit inp)) s
   \<and> (\<forall>x \<in> set (emitted (callStepFile d tm opts st ss spawn ws ending)).
        ev_traceId (fst x) = traceId opts \<and> ev_flows (fst x) = config_flows (config (step opts)))"
proof
  show "onMessage opts (Rpc (Emit (inp\<lparr>in_traceId := t, in_flows := f\<rparr>))) s
     = onMessage opts (Rpc (Emit inp)) s"
    by (simp add: onMessage_def emit_handler_def respond_def)
  show "\<forall>x \<in> set (emitted (callStepFile d tm opts st ss spawn ws ending)).
        ev_traceId (fst x) = traceId opts \<and> ev_flows (fst x) = config_flows (config (step opts))"
    using emitted_callStepFile by blast
qed

text \<open>
  C3 for a worker that puts a forged \<^verbatim>\<open>traceId\<close> in its emit: the forwarded event carries
  \<^verbatim>\<open>T1\<close>, the trace of the invocation.
\<close>

theorem emit_traceId_injected_witness:
  "(sample_event, ''steps/s.step.ts'')
     \<in> set (emitted (callStepFile ''/core'' False sample_options [] [] Spawned 
         [Rpc (Emit forged_emit)]
                       (ProcessClose (Some 0))))
   \<and> ev_traceId (fst (sample_event, ''steps/s.step.ts'')) = traceId sample_options
   \<and> ev_flows (fst (sample_event, ''steps/s.step.ts'')) = config_flows (config (step sample_options))"
proof -
  have mem: "(sample_event, ''steps/s.step.ts'')
     \<in> set (emitted (callStepFile ''/core'' False sample_options [] [] Spawned 
         [Rpc (Emit forged_emit)]
                       (ProcessClose (Some 0))))"
    by (simp add: callStepFile_def getLanguageBasedRunner_def suffix_to_prefix Let_def
        initial_state_def runMessages_def onMessage_def registered_handlers_def respond_def
        onProcessClose_def processManager_close_def settle_def emit_handler_def
        isAllowedToEmit_def)
  from emit_traceId_injected [where d = "''/core''" and tm = False and opts = sample_options
      and st = "[]" and ss = "[]" and spawn = Spawned and ws = "[Rpc (Emit forged_emit)]"
      and ending = "ProcessClose (Some 0)"] mem
  show ?thesis by blast
qed

text \<open>
  C4, as the code has it. For an invocation whose process was spawned and then closed:
  the promise is rejected with "Process exited with code N" exactly when the exit code is
  a number N other than 0; it is resolved with the stored result exactly when the exit
  code is 0 or \<^verbatim>\<open>null\<close>, the code of a process ended by a signal.
\<close>

theorem process_close_outcome:
  assumes "getLanguageBasedRunner d tm (Some (filePath (step opts))) = Inr r"
  shows "(\<forall>n. c = Some n \<and> n \<noteq> 0 \<longrightarrow>
            promise (callStepFile d tm opts st ss Spawned ws (ProcessClose c))
              = Some (Rejected (Reason (''Process exited with code '' @ string_of_int n))))
    \<and> (c = Some 0 \<or> c = None \<longrightarrow>
            promise (callStepFile d tm opts st ss Spawned ws (ProcessClose c))
              = Some (Resolved (if received_results ws = [] then JUndefined
                                else last (received_results ws))))
    \<and> ((\<exists>x. promise (callStepFile d tm opts st ss Spawned ws (ProcessClose c)) = Some (Rejected x))
          \<longleftrightarrow> (\<exists>n. c = Some n \<and> n \<noteq> 0))
    \<and> ((\<exists>v. promise (callStepFile d tm opts st ss Spawned ws (ProcessClose c)) = Some (Resolved v))
          \<longleftrightarrow> (c = Some 0 \<or> c = None))"
proof -
  note p = callStepFile_close [OF assms, of st ss ws c]
  show ?thesis
  proof (cases c)
    case None
    with p show ?thesis by simp
  next
    case (Some n)
    with p show ?thesis by (cases "n = 0") (simp_all add: string_of_code_def)
  qed
qed

text \<open>
  C4, as the code has it, at exit codes 2, 0 and \<^verbatim>\<open>null\<close>.
\<close>

theorem process_close_outcome_witness:
  "getLanguageBasedRunner ''/core'' False (Some (filePath (step sample_options)))
     = Inr sample_runner
   \<and> promise (callStepFile ''/core'' False sample_options [] [] Spawned [Rpc (Result (JNum 7))]
               (ProcessClose (Some 2)))
       = Some (Rejected (Reason ''Process exited with code 2''))
   \<and> promise (callStepFile ''/core'' False sample_options [] [] Spawned [Rpc (Result (JNum 7))]
               (ProcessClose (Some 0)))
       = Some (Resolved (JNum 7))
   \<and> promise (callStepFile ''/core'' False sample_options [] [] Spawned [Rpc (Result (JNum 7))]
               (ProcessClose None))
       = Some (Resolved (JNum 7))"
proof -
  have g: "getLanguageBasedRunner ''/core'' False (Some (filePath (step sample_options)))
     = Inr sample_runner"
    by (simp add: getLanguageBasedRunner_def suffix_to_prefix)
  show ?thesis
    using g
      process_close_outcome [OF g, where c = "Some 2" and st = "[]" and ss = "[]"
        and ws = "[Rpc (Result (JNum 7))]"]
      process_close_outcome [OF g, where c = "Some 0" and st = "[]" and ss = "[]"
        and ws = "[Rpc (Result (JNum 7))]"]
      process_close_outcome [OF g, where c = "None" and st = "[]" and ss = "[]"
        and ws = "[Rpc (Result (JNum 7))]"]
    by (simp add: received_results_def string_of_int_def string_of_nat.simps digit_char_def)
qed

text \<open>
  C4, as the claim states it, fails: a worker that reported the result 7 and was then ended
  by a signal (exit code \<^verbatim>\<open>null\<close>) is a success, resolved with 7.
\<close>

theorem signal_exit_resolves:
  "promise (callStepFile ''/core'' False
      \<lparr>step = \<lparr>filePath = ''steps/s.step.ts'', version = ''1'',
               config = EventConfig ''S'' [''a''] [Topic ''b''] [''flow'']\<rparr>,
       traceId = ''T1'', data = JNull, contextInFirstArg = False, lockedData = []\<rparr>
      [] [] Spawned [Rpc (Result (JNum 7))] (ProcessClose None))
     = Some (Resolved (JNum 7))"
  by (simp add: callStepFile_def getLanguageBasedRunner_def suffix_to_prefix Let_def
      initial_state_def runMessages_def onMessage_def registered_handlers_def respond_def
      onProcessClose_def processManager_close_def settle_def)

text \<open>
  C5 fails on the code. For the declared stream \<^verbatim>\<open>messages\<close> the context of the Node
  runner offers \<^verbatim>\<open>update\<close> and \<^verbatim>\<open>create\<close>, which send \<^verbatim>\<open>streams.messages.update\<close> and
  \<^verbatim>\<open>streams.messages.create\<close>; the executor registers no handler under either name.
\<close>

theorem stream_update_has_no_handler:
  "map_of (streams_context (Some [''messages''])) ''messages'' = Some (stream_operations ''messages'')
   \<and> map_of (stream_operations ''messages'') ''update'' = Some ''streams.messages.update''
   \<and> ''streams.messages.update'' \<notin> set (registered_handlers [''messages''])
   \<and> map_of (stream_operations ''messages'') ''create'' = Some ''streams.messages.create''
   \<and> ''streams.messages.create'' \<notin> set (registered_handlers [''messages''])"
  by (simp add: streams_context_def stream_operations_def registered_handlers_def stream_handlers_def)

text \<open>
  C7. For an invocation whose process was spawned and exits with code 0: if the worker
  sent no \<^verbatim>\<open>result\<close> frame the promise resolves with \<^verbatim>\<open>undefined\<close>; if it sent one
  \<^verbatim>\<open>result\<close> frame, before asking to be closed, the promise resolves with the value of
  that frame.
\<close>

theorem clean_exit_result:
  assumes "getLanguageBasedRunner d tm (Some (filePath (step opts))) = Inr r"
  shows "((\<forall>v. Rpc (Result v) \<notin> set ws) \<longrightarrow>
            promise (callStepFile d tm opts st ss Spawned ws (ProcessClose (Some 0)))
              = Some (Resolved JUndefined))
    \<and> (Rpc Close \<notin> set pre \<and> (\<forall>u. Rpc (Result u) \<notin> set pre) \<and> (\<forall>u. Rpc (Result u) \<notin> set post) \<longrightarrow>
            promise (callStepFile d tm opts st ss Spawned (pre @ Rpc (Result v) # post)
                       (ProcessClose (Some 0)))
              = Some (Resolved v))"
proof (intro conjI impI)
  assume "\<forall>v. Rpc (Result v) \<notin> set ws"
  then have "received_results ws = []" by (rule received_results_none)
  then show "promise (callStepFile d tm opts st ss Spawned ws (ProcessClose (Some 0)))
              = Some (Resolved JUndefined)"
    by (simp add: callStepFile_close [OF assms])
next
  assume "Rpc Close \<notin> set pre \<and> (\<forall>u. Rpc (Result u) \<notin> set pre) \<and> (\<forall>u. Rpc (Result u) \<notin> set post)"
  then have "received_results (pre @ Rpc (Result v) # post) = received_results pre @ [v]"
    by (simp add: received_results_last)
  then show "promise (callStepFile d tm opts st ss Spawned (pre @ Rpc (Result v) # post)
                       (ProcessClose (Some 0)))
              = Some (Resolved v)"
    by (simp add: callStepFile_close [OF assms])
qed

text \<open>
  C7 for a worker that only logs, and for one that logs, reports 7 and asks to be
  closed.
\<close>

theorem clean_exit_result_witness:
  "getLanguageBasedRunner ''/core'' False (Some (filePath (step sample_options)))
     = Inr sample_runner
   \<and> promise (callStepFile ''/core'' False sample_options [] [] Spawned [Rpc (Log (JStr ''working''))]
               (ProcessClose (Some 0)))
       = Some (Resolved JUndefined)
   \<and> promise (callStepFile ''/core'' False sample_options [] [] Spawned
               ([Rpc (Log (JStr ''working''))] @ Rpc (Result (JNum 7)) # [Rpc Close])
               (ProcessClose (Some 0)))
       = Some (Resolved (JNum 7))"
proof -
  have g: "getLanguageBasedRunner ''/core'' False (Some (filePath (step sample_options)))
     = Inr sample_runner"
    by (simp add: getLanguageBasedRunner_def suffix_to_prefix)
  have a: "\<forall>v. Rpc (Result v) \<notin> set [Rpc (Log (JStr ''working''))]" by simp
  have b: "Rpc Close \<notin> set [Rpc (Log (JStr ''working''))]
      \<and> (\<forall>u. Rpc (Result u) \<notin> set [Rpc (Log (JStr ''working''))])
      \<and> (\<forall>u. Rpc (Result u) \<notin> set [Rpc Close])" by simp
  from g a b
    clean_exit_result [OF g, where st = "[]" and ss = "[]" and ws = "[Rpc (Log (JStr ''working''))]"
      and pre = "[Rpc (Log (JStr ''working''))]" and v = "JNum 7" and post = "[Rpc Close]"]
  show ?thesis by blast
qed



text \<open>
  C9. For an invocation whose process was spawned and exits with code 0, the promise
  resolves with the value of the last \<^verbatim>\<open>result\<close> frame received; in particular with the
  second of two. The \<^verbatim>\<open>result\<close> handler overwrites the stored value and answers
  \<^verbatim>\<open>undefined\<close>, whatever was stored before: no error is raised.
\<close>

theorem last_result_wins:
  assumes "getLanguageBasedRunner d tm (Some (filePath (step opts))) = Inr r"
  shows "promise (callStepFile d tm opts st ss Spawned ws (ProcessClose (Some 0)))
           = Some (Resolved (if received_results ws = [] then JUndefined
                             else last (received_results ws)))
    \<and> (Rpc Close \<notin> set pre \<and> Rpc Close \<notin> set mid \<and> (\<forall>u. Rpc (Result u) \<notin> set post) \<longrightarrow>
          promise (callStepFile d tm opts st ss Spawned
                     (pre @ Rpc (Result v1) # mid @ Rpc (Result v2) # post) (ProcessClose (Some 0)))
            = Some (Resolved v2))
    \<and> (''result'' \<in> set (handlers s) \<longrightarrow>
          onMessage opts (Rpc (Result v)) s
            = s\<lparr>result := v, responses := responses s @ [(''result'', JUndefined)]\<rparr>)"
proof (intro conjI impI)
  show "promise (callStepFile d tm opts st ss Spawned ws (ProcessClose (Some 0)))
           = Some (Resolved (if received_results ws = [] then JUndefined
                             else last (received_results ws)))"
    by (simp add: callStepFile_close [OF assms])
next
  assume a: "Rpc Close \<notin> set pre \<and> Rpc Close \<notin> set mid \<and> (\<forall>u. Rpc (Result u) \<notin> set post)"
  then have "Rpc Close \<notin> set (pre @ Rpc (Result v1) # mid)" by simp
  with a have "received_results ((pre @ Rpc (Result v1) # mid) @ Rpc (Result v2) # post)
      = received_results (pre @ Rpc (Result v1) # mid) @ [v2]"
    using received_results_last by blast
  then show "promise (callStepFile d tm opts st ss Spawned
                     (pre @ Rpc (Result v1) # mid @ Rpc (Result v2) # post) (ProcessClose (Some 0)))
            = Some (Resolved v2)"
    by (simp add: callStepFile_close [OF assms])
next
  assume "''result'' \<in> set (handlers s)"
  then show "onMessage opts (Rpc (Result v)) s
            = s\<lparr>result := v, responses := responses s @ [(''result'', JUndefined)]\<rparr>"
    by (simp add: onMessage_def respond_def)
qed

text \<open>
  C9 for a worker that reports 1, logs, reports 2 and asks to be closed.
\<close>

theorem last_result_wins_witness:
  "getLanguageBasedRunner ''/core'' False (Some (filePath (step sample_options)))
     = Inr sample_runner
   \<and> promise (callStepFile ''/core'' False sample_options [] [] Spawned
               ([] @ Rpc (Result (JNum 1)) # [Rpc (Log JNull)] @ Rpc (Result (JNum 2)) # [Rpc Close])
               (ProcessClose (Some 0)))
       = Some (Resolved (JNum 2))
   \<and> ''result'' \<in> set (handlers (sample_running\<lparr>result := JNum 1\<rparr>))
   \<and> result (onMessage sample_options (Rpc (Result (JNum 2))) (sample_running\<lparr>result := JNum 1\<rparr>)) = JNum 2"
proof -
  have g: "getLanguageBasedRunner ''/core'' False (Some (filePath (step sample_options)))
     = Inr sample_runner"
    by (simp add: getLanguageBasedRunner_def suffix_to_prefix)
  have a: "Rpc Close \<notin> set [] \<and> Rpc Close \<notin> set [Rpc (Log JNull)]
      \<and> (\<forall>u. Rpc (Result u) \<notin> set [Rpc Close])" by simp
  have h: "''result'' \<in> set (handlers (sample_running\<lparr>result := JNum 1\<rparr>))"
    by (simp add: registered_handlers_def)
  note T = last_result_wins [OF g, where st = "[]" and ss = "[]" and pre = "[]" and ?v1.0 = "JNum 1"
      and mid = "[Rpc (Log JNull)]" and ?v2.0 = "JNum 2" and post = "[Rpc Close]"
      and s = "sample_running\<lparr>result := JNum 1\<rparr>" and v = "JNum 2"]
  from T a have p: "promise (callStepFile ''/core'' False sample_options [] [] Spawned
               ([] @ Rpc (Result (JNum 1)) # [Rpc (Log JNull)] @ Rpc (Result (JNum 2)) # [Rpc Close])
               (ProcessClose (Some 0)))
       = Some (Resolved (JNum 2))" by blast
  from T h have "onMessage sample_options (Rpc (Result (JNum 2))) (sample_running\<lparr>result := JNum 1\<rparr>)
      = (sample_running\<lparr>result := JNum 1\<rparr>)\<lparr>result := JNum 2,
           responses := responses (sample_running\<lparr>result := JNum 1\<rparr>) @ [(''result'', JUndefined)]\<rparr>"
    by blast
  then have r: "result (onMessage sample_options (Rpc (Result (JNum 2))) (sample_running\<lparr>result := JNum 1\<rparr>)) = JNum 2"
    by simp
  from g p h r show ?thesis by blast
qed

text \<open>
  C10. When the module of the step file exports no function named \<^verbatim>\<open>handler\<close>, the
  Node runner prints the error "Function handler not found in module <filePath>" with
  \<^verbatim>\<open>console.error\<close> and exits with code 1, without calling any handler; the executor,
  for a step file that the Node runner loads, then rejects the promise with
  "Process exited with code 1".
\<close>

theorem handler_not_found:
  assumes "\<forall>h. handler m \<noteq> Function h"
  shows "runTypescriptModule (filePath (step opts)) ev (Inr m)
           = [ConsoleError ''Error running TypeScript module:''
                (Error (''Function handler not found in module '' @ filePath (step opts))),
              Exit 1]
    \<and> CallHandler \<notin> set (runTypescriptModule (filePath (step opts)) ev (Inr m))
    \<and> (suffix ''.js'' (filePath (step opts)) \<or> suffix ''.ts'' (filePath (step opts)) \<longrightarrow>
          promise (callStepFile d tm opts st ss Spawned ws (ProcessClose (Some 1)))
            = Some (Rejected (Reason ''Process exited with code 1'')))"
proof -
  have run: "runTypescriptModule (filePath (step opts)) ev (Inr m)
           = [ConsoleError ''Error running TypeScript module:''
                (Error (''Function handler not found in module '' @ filePath (step opts))),
              Exit 1]"
    using assms by (cases "handler m") (simp_all add: runTypescriptModule_def)
  have parent: "promise (callStepFile d tm opts st ss Spawned ws (ProcessClose (Some 1)))
            = Some (Rejected (Reason ''Process exited with code 1''))"
    if "suffix ''.js'' (filePath (step opts)) \<or> suffix ''.ts'' (filePath (step opts))"
  proof -
    from that obtain r where "getLanguageBasedRunner d tm (Some (filePath (step opts))) = Inr r"
      using node_runner_selected by blast
    from callStepFile_close [OF this, of st ss ws "Some 1"] show ?thesis
      by (simp add: string_of_code_def string_of_int_1)
  qed
  from run parent show ?thesis by simp
qed

text \<open>
  C10 for a module that exports no \<^verbatim>\<open>handler\<close> at all.
\<close>

theorem handler_not_found_witness:
  "runTypescriptModule ''steps/s.step.ts'' \<lparr>re_data = JNull, re_traceId = ''T1'', re_flows = [''flow''],
        re_contextInFirstArg = False, re_streams = Some []\<rparr> (Inr \<lparr>handler = NotExported, module_config = None\<rparr>)
     = [ConsoleError ''Error running TypeScript module:''
          (Error ''Function handler not found in module steps/s.step.ts''), Exit 1]
   \<and> suffix ''.ts'' ''steps/s.step.ts''
   \<and> promise (callStepFile ''/core'' False sample_options [] [] Spawned
               [Stderr ''Error running TypeScript module: Function handler not found'']
               (ProcessClose (Some 1)))
       = Some (Rejected (Reason ''Process exited with code 1''))"
proof -
  have n: "\<forall>h. handler \<lparr>handler = NotExported, module_config = None\<rparr> \<noteq> Function h" by simp
  have ts: "suffix ''.ts'' ''steps/s.step.ts''" by (simp add: suffix_to_prefix)
  show ?thesis
    using ts
      handler_not_found [OF n, where opts = sample_options and ev = "\<lparr>re_data = JNull, re_traceId = ''T1'', re_flows = [''flow''],
        re_contextInFirstArg = False, re_streams = Some []\<rparr>" and d = "''/core''" and tm = False
        and st = "[]" and ss = "[]"
        and ws = "[Stderr ''Error running TypeScript module: Function handler not found'']"]
    by simp
qed

end
